theory Spec2Isabelle
  imports Main
begin

section \<open>Python values and errors\<close>

text \<open>
  Scalar Python values as they occur in column attributes, defaults, rule arguments and
  documents. \<open>PObject\<close> stands for any value that is not \<open>None\<close>, an \<open>int\<close>, a \<open>str\<close>
  or a \<open>bool\<close> (a float, a date, a callable, an SQL expression); the string is a tag.
\<close>

datatype py_value = PNone | PInt int | PStr string | PBool bool | PObject string

text \<open>The exceptions the module raises or lets through.\<close>

datatype error =
    LookupError
  | RuntimeError
  | ValueError
  | AttributeError
  | IndexError
  | NoInspectionAvailable
  | OtherError string

section \<open>Columns of a mapped class\<close>

text \<open>\<open>column.type.python_type\<close>: the five types of the conversion table, and any other.\<close>

datatype py_type = PyInt | PyStr | PyBool | PyDate | PyDatetime | PyOtherType string

text \<open>
  \<open>column.default\<close> is \<open>None\<close> or a default generator. A \<open>ColumnDefault\<close> has an
  attribute \<open>arg\<close> (a scalar, a callable or an SQL expression); a \<open>Sequence\<close> has none.
\<close>

datatype column_default = ColumnDefault py_value | Sequence

record column =
  name :: string
  python_type :: py_type
  type_length :: "int option"
  primary_key :: bool
  nullable :: bool
  col_default :: "column_default option"
  server_default :: "string option"
  col_unique :: "bool option"

section \<open>Schema generation\<close>

type_synonym rules = "string \<rightharpoonup> py_value"
type_synonym schema = "string \<rightharpoonup> rules"

text \<open>The dictionary \<open>schema_type_conversions\<close>, read with \<open>.get\<close>.\<close>

fun schema_type_conversions :: "py_type \<Rightarrow> string option" where
  "schema_type_conversions PyInt = Some ''integer''"
| "schema_type_conversions PyStr = Some ''string''"
| "schema_type_conversions PyBool = Some ''boolean''"
| "schema_type_conversions PyDate = Some ''string''"
| "schema_type_conversions PyDatetime = Some ''string''"
| "schema_type_conversions (PyOtherType t) = None"

text \<open>
  The rule-set \<open>prop\<close> of one column, once its \<open>type\<close> is known: the four conditional
  assignments of the loop body, in the order of the source.
\<close>

definition add_maxlength :: "column \<Rightarrow> string list \<Rightarrow> rules \<Rightarrow> rules" where
  "add_maxlength c exclude_rules prop =
     (if ''readonly'' \<notin> set exclude_rules \<and> python_type c = PyStr \<and> type_length c \<noteq> None
      then prop(''maxlength'' \<mapsto> PInt (the (type_length c))) else prop)"

definition add_readonly :: "column \<Rightarrow> string list \<Rightarrow> rules \<Rightarrow> rules" where
  "add_readonly c exclude_rules prop =
     (if ''readonly'' \<notin> set exclude_rules \<and> primary_key c
      then prop(''readonly'' \<mapsto> PBool True) else prop)"

definition add_required :: "column \<Rightarrow> string list \<Rightarrow> rules \<Rightarrow> rules" where
  "add_required c exclude_rules prop =
     (if ''required'' \<notin> set exclude_rules \<and> col_default c = None
         \<and> server_default c = None \<and> nullable c = False \<and> primary_key c = False
      then prop(''required'' \<mapsto> PBool True) else prop)"

definition add_unique :: "column \<Rightarrow> string list \<Rightarrow> rules \<Rightarrow> rules" where
  "add_unique c exclude_rules prop =
     (if ''unique'' \<notin> set exclude_rules \<and> col_unique c = Some True
      then prop(''unique'' \<mapsto> PBool True) else prop)"

definition column_prop :: "column \<Rightarrow> string list \<Rightarrow> string \<Rightarrow> rules" where
  "column_prop c exclude_rules t =
     add_unique c exclude_rules
       (add_required c exclude_rules
         (add_readonly c exclude_rules
           (add_maxlength c exclude_rules (Map.empty(''type'' \<mapsto> PStr t)))))"

text \<open>The two \<open>continue\<close> tests of the loop: a column passes when neither fires.\<close>

definition selected :: "string list \<Rightarrow> string list \<Rightarrow> column \<Rightarrow> bool" where
  "selected include exclude c =
     (if length include > 0 \<and> name c \<notin> set include then False
      else if name c \<in> set exclude then False
      else True)"

text \<open>
  The loop over \<open>mapper.c\<close>. The schema built so far is threaded through; a selected
  column whose type has no conversion raises, and the schema built so far is lost.
\<close>

fun schema_loop ::
  "column list \<Rightarrow> string list \<Rightarrow> string list \<Rightarrow> string list \<Rightarrow> schema \<Rightarrow> error + schema"
where
  "schema_loop [] include exclude exclude_rules schema = Inr schema"
| "schema_loop (c # cs) include exclude exclude_rules schema =
     (if \<not> selected include exclude c then schema_loop cs include exclude exclude_rules schema
      else (case schema_type_conversions (python_type c) of
              None \<Rightarrow> Inl LookupError
            | Some t \<Rightarrow>
                schema_loop cs include exclude exclude_rules
                  (schema(name c \<mapsto> column_prop c exclude_rules t))))"

text \<open>
  \<open>generate_schema(model_class, include, exclude, exclude_rules)\<close>; the model class is
  given by the columns of its mapper, and \<open>exclude_rules or []\<close> turns \<open>None\<close> into the
  empty list.
\<close>

definition generate_schema ::
  "column list \<Rightarrow> string list \<Rightarrow> string list \<Rightarrow> string list option \<Rightarrow> error + schema"
where
  "generate_schema model_class include exclude exclude_rules =
     schema_loop model_class include exclude
       (case exclude_rules of None \<Rightarrow> [] | Some rs \<Rightarrow> rs) Map.empty"

section \<open>Export of model instances\<close>

text \<open>
  The result of an export: a scalar, a dictionary or a list. A Python dictionary keeps
  its keys in insertion order and an assignment to a key that is present replaces the
  value in place; \<open>dict_set\<close> is that assignment on an association list.
\<close>

datatype export_value =
    EVal py_value
  | EDict "(string \<times> export_value) list"
  | EList "export_value list"

type_synonym dict = "(string \<times> export_value) list"

fun dict_set :: "string \<Rightarrow> export_value \<Rightarrow> dict \<Rightarrow> dict" where
  "dict_set k v [] = [(k, v)]"
| "dict_set k v ((k', v') # d) = (if k' = k then (k, v) # d else (k', v') # dict_set k v d)"

text \<open>
  The objects \<open>ExportData.__call__\<close> can be given: \<open>None\<close>, an object SQLAlchemy cannot
  inspect, a list (or \<open>InstrumentedList\<close>), or an instance of a mapped class. An instance
  is given by what the method reads of it, in this order:
  \<^item> \<open>inspect(obj).persistent\<close>;
  \<^item> the columns of its mapper;
  \<^item> \<open>getattr(obj, name)\<close> for the column names;
  \<^item> \<open>inspect(obj).unloaded\<close>, the names of the attributes that are not loaded;
  \<^item> the relationships of its mapper in the mapper's order, each key with the value
    \<open>getattr(obj, key)\<close> (\<open>None\<close>, an instance or a list);
  \<^item> its method \<open>export_data(include, exclude)\<close>, when its class defines one.
\<close>

datatype obj =
    PyNone
  | Unmapped
  | PyList "obj list"
  | Instance bool "column list" "string \<Rightarrow> py_value" "string list" "(string \<times> obj) list"
      "(string list \<Rightarrow> string list \<Rightarrow> error + export_value) option"

text \<open>
  \<open>_get_column_default\<close>: \<open>d.arg\<close> when it is an \<open>int\<close>, a \<open>str\<close> or a \<open>bool\<close>, and
  \<open>None\<close> otherwise, also when the column has no default or the default has no \<open>arg\<close>.
\<close>

definition get_column_default :: "column \<Rightarrow> py_value" where
  "get_column_default c =
     (case col_default c of
        None \<Rightarrow> PNone
      | Some Sequence \<Rightarrow> PNone
      | Some (ColumnDefault arg) \<Rightarrow>
          (case arg of PInt i \<Rightarrow> arg | PStr s \<Rightarrow> arg | PBool b \<Rightarrow> arg | _ \<Rightarrow> PNone))"

text \<open>\<open>hasattr(x, "export_data")\<close>, the call \<open>x.export_data(include, exclude)\<close>, and \<open>bool(x)\<close>.\<close>

fun has_export_data :: "obj \<Rightarrow> bool" where
  "has_export_data (Instance p cs a u rs (Some f)) = True"
| "has_export_data ob = False"

fun call_export_data :: "obj \<Rightarrow> string list \<Rightarrow> string list \<Rightarrow> error + export_value" where
  "call_export_data (Instance p cs a u rs (Some f)) include exclude = f include exclude"
| "call_export_data ob include exclude = Inl AttributeError"

fun truthy :: "obj \<Rightarrow> bool" where
  "truthy PyNone = False"
| "truthy (PyList xs) = (xs \<noteq> [])"
| "truthy ob = True"

text \<open>The comprehension \<open>[item.export_data(include, exclude) for item in obj]\<close>.\<close>

fun export_data_each ::
  "obj list \<Rightarrow> string list \<Rightarrow> string list \<Rightarrow> error + export_value list"
where
  "export_data_each [] include exclude = Inr []"
| "export_data_each (item # rest) include exclude =
     (case call_export_data item include exclude of
        Inl e \<Rightarrow> Inl e
      | Inr v \<Rightarrow> (case export_data_each rest include exclude of
                    Inl e \<Rightarrow> Inl e
                  | Inr vs \<Rightarrow> Inr (v # vs)))"

text \<open>The test \<open>(not include or name in include) and name not in exclude\<close>.\<close>

definition included :: "string list \<Rightarrow> string list \<Rightarrow> string \<Rightarrow> bool" where
  "included include exclude n = ((include = [] \<or> n \<in> set include) \<and> n \<notin> set exclude)"

text \<open>The loop over the columns, filling \<open>data\<close>.\<close>

fun export_columns ::
  "bool \<Rightarrow> (string \<Rightarrow> py_value) \<Rightarrow> string list \<Rightarrow> string list \<Rightarrow> column list \<Rightarrow> dict \<Rightarrow> dict"
where
  "export_columns persisted attrs include exclude [] data = data"
| "export_columns persisted attrs include exclude (c # cs) data =
     export_columns persisted attrs include exclude cs
       (if included include exclude (name c)
        then dict_set (name c)
               (EVal (if persisted then attrs (name c)
                      else if attrs (name c) = PNone then get_column_default c
                      else attrs (name c))) data
        else data)"

text \<open>
  \<open>ExportData.__call__(self, obj, include, exclude)\<close>; the first argument is
  \<open>self.exclude\<close>. \<open>ExportData_items\<close> is the comprehension
  \<open>[self(item, include, exclude) for item in obj]\<close> and \<open>export_relationships\<close> the loop
  over the relationship keys, which exports a related object with no \<open>include\<close> and no
  \<open>exclude\<close> of the caller.
\<close>

function ExportData_call ::
    "string list \<Rightarrow> obj \<Rightarrow> string list \<Rightarrow> string list \<Rightarrow> error + export_value"
  and ExportData_items ::
    "string list \<Rightarrow> obj list \<Rightarrow> string list \<Rightarrow> string list \<Rightarrow> error + export_value list"
  and export_relationships ::
    "string list \<Rightarrow> string list \<Rightarrow> string list \<Rightarrow> (string \<times> obj) list \<Rightarrow> dict \<Rightarrow> error + dict"
where
  "ExportData_call self_exclude (PyList items) include exclude =
     (case export_data_each items include exclude of
        Inr vs \<Rightarrow> Inr (EList vs)
      | Inl e \<Rightarrow>
          if e = AttributeError then
            (case items of
               [] \<Rightarrow> Inl IndexError
             | first # others \<Rightarrow>
                 if has_export_data first then Inl e
                 else (case ExportData_items self_exclude items include exclude of
                         Inl e' \<Rightarrow> Inl e'
                       | Inr vs \<Rightarrow> Inr (EList vs)))
          else Inl e)"
| "ExportData_call self_exclude PyNone include exclude = Inl ValueError"
| "ExportData_call self_exclude Unmapped include exclude = Inl ValueError"
| "ExportData_call self_exclude (Instance persisted cols attrs unl rels custom) include exclude =
     (let exclude' = exclude @ self_exclude;
          data = export_columns persisted attrs include exclude' cols []
      in if persisted then
           (case export_relationships self_exclude unl exclude' rels data of
              Inl e \<Rightarrow> Inl e
            | Inr data' \<Rightarrow> Inr (EDict data'))
         else Inr (EDict data))"
| "ExportData_items self_exclude [] include exclude = Inr []"
| "ExportData_items self_exclude (item # rest) include exclude =
     (case ExportData_call self_exclude item include exclude of
        Inl e \<Rightarrow> Inl e
      | Inr v \<Rightarrow> (case ExportData_items self_exclude rest include exclude of
                    Inl e \<Rightarrow> Inl e
                  | Inr vs \<Rightarrow> Inr (v # vs)))"
| "export_relationships self_exclude unl exclude [] data = Inr data"
| "export_relationships self_exclude unl exclude ((key, rproperty) # rest) data =
     (if key \<notin> set unl \<and> key \<notin> set exclude then
        (let data1 = dict_set key (EVal PNone) data in
         if has_export_data rproperty then
           (case call_export_data rproperty [] [] of
              Inl e \<Rightarrow> Inl e
            | Inr v \<Rightarrow> export_relationships self_exclude unl exclude rest (dict_set key v data1))
         else if truthy rproperty then
           (case ExportData_call self_exclude rproperty [] [] of
              Inl e \<Rightarrow> Inl e
            | Inr v \<Rightarrow> export_relationships self_exclude unl exclude rest (dict_set key v data1))
         else export_relationships self_exclude unl exclude rest data1)
      else export_relationships self_exclude unl exclude rest data)"
  by pat_completeness auto
termination
  by (relation "measure (\<lambda>x. case x of
        Inl (g, ob, i, e) \<Rightarrow> size ob
      | Inr (Inl (g, items, i, e)) \<Rightarrow> size_list size items
      | Inr (Inr (g, u, e, rels, d)) \<Rightarrow> size_list (size_prod (\<lambda>k. 0) size) rels)") auto

text \<open>\<open>export_from_sqla_object = ExportData(exclude=("org_id",))\<close>.\<close>

definition export_from_sqla_object ::
  "obj \<Rightarrow> string list \<Rightarrow> string list \<Rightarrow> error + export_value"
where
  "export_from_sqla_object = ExportData_call [''org_id'']"

text \<open>
  What the relationship loop stores under a key that is loaded and not excluded: the
  three branches of its body.
\<close>

definition relationship_value :: "string list \<Rightarrow> obj \<Rightarrow> error + export_value" where
  "relationship_value self_exclude rproperty =
     (if has_export_data rproperty then call_export_data rproperty [] []
      else if truthy rproperty then ExportData_call self_exclude rproperty [] []
      else Inr (EVal PNone))"

section \<open>Import of a dictionary into an instance\<close>

text \<open>
  \<open>import_into_sqla_object(model_instance, data)\<close>: for each key of \<open>data\<close>, in the
  order of the dictionary, \<open>setattr\<close> when the key is in \<open>mapper.c\<close>. \<open>data\<close> is the list
  of its items; \<open>inspect\<close> of the class of an object that is not mapped raises.
\<close>

fun import_loop ::
  "string list \<Rightarrow> (string \<Rightarrow> py_value) \<Rightarrow> (string \<times> py_value) list \<Rightarrow> string \<Rightarrow> py_value"
where
  "import_loop keys attrs [] = attrs"
| "import_loop keys attrs ((key, v) # rest) =
     import_loop keys (if key \<in> set keys then attrs(key := v) else attrs) rest"

fun import_into_sqla_object :: "obj \<Rightarrow> (string \<times> py_value) list \<Rightarrow> error + obj" where
  "import_into_sqla_object (Instance p cols attrs unl rels custom) data =
     Inr (Instance p cols (import_loop (map name cols) attrs data) unl rels custom)"
| "import_into_sqla_object ob data = Inl NoInspectionAvailable"

section \<open>The validator\<close>

text \<open>
  A field-level violation: the one \<open>_validate_unique\<close> records (its message quotes the
  value), or one found by a rule the class inherits.
\<close>

datatype violation = Must_be_unique py_value | Inherited_rule string

type_synonym errors = "(string \<times> violation) list"

text \<open>
  The attributes of a \<open>Validator\<close> that the module reads or writes. \<open>model_class\<close> is
  given by its query \<open>model_class.query.filter_by(field=value).first()\<close>, which returns
  an instance or \<open>None\<close>; \<open>'m\<close> is the identity of a model instance.
\<close>

record 'm validator =
  self_schema :: schema
  self_model_class :: "(string \<Rightarrow> py_value \<Rightarrow> 'm option) option"
  self_update :: bool
  self_model :: "'m option"
  self_errors :: errors

text \<open>\<open>Validator._validate_unique(self, is_unique, field, value)\<close>.\<close>

definition validate_unique ::
  "'m validator \<Rightarrow> bool \<Rightarrow> string \<Rightarrow> py_value \<Rightarrow> error + 'm validator"
where
  "validate_unique self is_unique field v =
     (if is_unique then
        (case self_model_class self of
           None \<Rightarrow> Inl RuntimeError
         | Some query \<Rightarrow>
             (let model = query field v in
              if model \<noteq> None \<and> (\<not> self_update self \<or> model \<noteq> self_model self)
              then Inr (self\<lparr>self_errors := self_errors self @ [(field, Must_be_unique v)]\<rparr>)
              else Inr self))
      else Inr self)"

text \<open>
  The rules the class inherits from the validation library, which is not part of the
  sources: for the rule-set of a field and its value, the violations they find and
  whether the rules after them are still evaluated for this field; and the check of the
  required fields of a document.
\<close>

record library =
  inherited_rules :: "rules \<Rightarrow> string \<Rightarrow> py_value \<Rightarrow> errors \<times> bool"
  required_fields :: "schema \<Rightarrow> (string \<times> py_value) list \<Rightarrow> bool \<Rightarrow> errors"

text \<open>
  Modelled from the spec: the loop of the inherited \<open>validate\<close> over the fields of the
  document, which \<open>Validator.validate\<close> calls through \<open>super()\<close> and which is not under
  \<open>src/\<close>. After section 4.3 of the spec: a field of the document that is not in the schema
  is ignored; a field that is in it is checked against its rule-set, its violations are
  recorded and the next field is checked; the \<open>unique\<close> rule of the rule-set is handed to
  \<open>_validate_unique\<close> with the field and its value, and what that handler raises ends
  the validation.
\<close>

fun validate_fields ::
  "library \<Rightarrow> 'm validator \<Rightarrow> (string \<times> py_value) list \<Rightarrow> error + 'm validator"
where
  "validate_fields lib self [] = Inr self"
| "validate_fields lib self ((field, v) # rest) =
     (case self_schema self field of
        None \<Rightarrow> validate_fields lib self rest
      | Some definitions \<Rightarrow>
          (let (found, continue) = inherited_rules lib definitions field v;
               self1 = self\<lparr>self_errors := self_errors self @ found\<rparr>
           in if continue \<and> ''unique'' \<in> dom definitions then
                (case validate_unique self1 (definitions ''unique'' = Some (PBool True)) field v of
                   Inl e \<Rightarrow> Inl e
                 | Inr self2 \<Rightarrow> validate_fields lib self2 rest)
              else validate_fields lib self1 rest))"

text \<open>
  Modelled from the spec: the inherited \<open>validate(document, update)\<close>, not under
  \<open>src/\<close>. It stores \<open>update\<close>, starts from no errors, checks the fields of the document
  and then the required fields, and returns whether no violation was found (the
  spec's \<open>Accepted\<close>), with the violations in \<open>errors\<close>.
\<close>

definition inherited_validate ::
  "library \<Rightarrow> 'm validator \<Rightarrow> (string \<times> py_value) list \<Rightarrow> bool \<Rightarrow>
   error + bool \<times> 'm validator"
where
  "inherited_validate lib self document update =
     (let self1 = self\<lparr>self_update := update, self_errors := []\<rparr> in
      case validate_fields lib self1 document of
        Inl e \<Rightarrow> Inl e
      | Inr self2 \<Rightarrow>
          (let self3 = self2\<lparr>self_errors := self_errors self2 @
                 required_fields lib (self_schema self2) document update\<rparr>
           in Inr (self_errors self3 = [], self3)))"

text \<open>
  \<open>Validator.validate(self, document, model=None, **kwargs)\<close>: it stores \<open>model\<close> and
  returns what the inherited \<open>validate\<close> returns; \<open>update\<close> is the keyword argument that the
  inherited method reads.
\<close>

definition validate ::
  "library \<Rightarrow> 'm validator \<Rightarrow> (string \<times> py_value) list \<Rightarrow> 'm option \<Rightarrow> bool \<Rightarrow>
   error + bool \<times> 'm validator"
where
  "validate lib self document model update =
     inherited_validate lib (self\<lparr>self_model := model\<rparr>) document update"

text \<open>
  The \<open>unique\<close> rule of a field of the document is evaluated with a true argument: the
  field is in the schema, the inherited rules let the evaluation go on, and the rule-set
  has \<open>unique: True\<close>.
\<close>

definition unique_evaluated :: "library \<Rightarrow> schema \<Rightarrow> string \<times> py_value \<Rightarrow> bool" where
  "unique_evaluated lib sch fv =
     (case sch (fst fv) of
        None \<Rightarrow> False
      | Some definitions \<Rightarrow>
          snd (inherited_rules lib definitions (fst fv) (snd fv)) \<and>
          definitions ''unique'' = Some (PBool True))"

section \<open>Example model: the \<open>User\<close> entity\<close>

text \<open>
  \<open>User{id: integer primary-key, email: string unique maxlength=120, active: boolean
  default=false}\<close>. The primary key and the e-mail address are not nullable.
\<close>

definition user_id :: column where
  "user_id = \<lparr>name = ''id'', python_type = PyInt, type_length = None, primary_key = True,
     nullable = False, col_default = None, server_default = None, col_unique = None\<rparr>"

definition user_email :: column where
  "user_email = \<lparr>name = ''email'', python_type = PyStr, type_length = Some 120,
     primary_key = False, nullable = False, col_default = None, server_default = None,
     col_unique = Some True\<rparr>"

definition user_active :: column where
  "user_active = \<lparr>name = ''active'', python_type = PyBool, type_length = None,
     primary_key = False, nullable = True, col_default = Some (ColumnDefault (PBool False)),
     server_default = None, col_unique = None\<rparr>"

definition User :: "column list" where
  "User = [user_id, user_email, user_active]"

text \<open>A model with a column whose type has no conversion (a float).\<close>

definition product_price :: column where
  "product_price = \<lparr>name = ''price'', python_type = PyOtherType ''float'', type_length = None,
     primary_key = False, nullable = True, col_default = None, server_default = None,
     col_unique = None\<rparr>"

definition Product :: "column list" where
  "Product = [user_id, product_price, user_active]"

text \<open>
  Reading a result of \<open>generate_schema\<close>: the rule-set of a field at the five rule
  names \<open>type\<close>, \<open>maxlength\<close>, \<open>readonly\<close>, \<open>required\<close>, \<open>unique\<close>, in this order.
\<close>

definition read_rules :: "rules \<Rightarrow> py_value option list" where
  "read_rules prop = map prop [''type'', ''maxlength'', ''readonly'', ''required'', ''unique'']"

definition field_rules :: "error + schema \<Rightarrow> string \<Rightarrow> error + py_value option list option" where
  "field_rules r f = map_sum id (\<lambda>s. map_option read_rules (s f)) r"

text \<open>Instances for the export. Attributes that are not set read as \<open>None\<close>.\<close>

definition attrs_of :: "(string \<times> py_value) list \<Rightarrow> string \<Rightarrow> py_value" where
  "attrs_of kvs n = (case map_of kvs n of None \<Rightarrow> PNone | Some v \<Rightarrow> v)"

text \<open>\<open>User()\<close>, not persisted, with nothing set.\<close>

definition new_user :: obj where
  "new_user = Instance False User (attrs_of []) [] [] None"

text \<open>\<open>getattr(obj, n)\<close> on what \<open>import_into_sqla_object\<close> returns.\<close>

definition read_attr :: "error + obj \<Rightarrow> string \<Rightarrow> error + py_value" where
  "read_attr r n =
     (case r of
        Inl e \<Rightarrow> Inl e
      | Inr (Instance p cols attrs unl rels custom) \<Rightarrow> Inr (attrs n)
      | Inr ob \<Rightarrow> Inl AttributeError)"

definition org_id_column :: column where
  "org_id_column = \<lparr>name = ''org_id'', python_type = PyInt, type_length = None,
     primary_key = False, nullable = False, col_default = None, server_default = None,
     col_unique = None\<rparr>"

definition post_title :: column where
  "post_title = \<lparr>name = ''title'', python_type = PyStr, type_length = Some 80,
     primary_key = False, nullable = True, col_default = None, server_default = None,
     col_unique = None\<rparr>"

definition Post :: "column list" where
  "Post = [user_id, post_title, org_id_column]"

definition post :: "int \<Rightarrow> string \<Rightarrow> obj" where
  "post i t = Instance True Post
     (attrs_of [(''id'', PInt i), (''title'', PStr t), (''org_id'', PInt 7)]) [] [] None"

definition Author :: "column list" where
  "Author = [user_id, org_id_column]"

text \<open>
  A persisted author: \<open>profile\<close> is loaded and \<open>None\<close>, \<open>posts\<close> is loaded and holds two
  posts, \<open>org\<close> is not loaded.
\<close>

definition author :: obj where
  "author = Instance True Author (attrs_of [(''id'', PInt 1), (''org_id'', PInt 7)])
     [''org'']
     [(''profile'', PyNone), (''posts'', PyList [post 10 ''a'', post 11 ''b'']),
      (''org'', PyNone)]
     None"

text \<open>A persisted blog whose to-many relationship \<open>posts\<close> is loaded and empty.\<close>

definition blog :: obj where
  "blog = Instance True [user_id] (attrs_of [(''id'', PInt 1)]) [] [(''posts'', PyList [])] None"

text \<open>
  For the validator: a schema with a \<open>unique\<close> rule on \<open>email\<close>, a library whose inherited
  rules find nothing wrong, and a table holding one user, of identity \<open>1\<close>, whose e-mail
  address is \<open>a@b.com\<close>.
\<close>

definition account_schema :: schema where
  "account_schema =
     [''email'' \<mapsto> [''type'' \<mapsto> PStr ''string'', ''unique'' \<mapsto> PBool True],
      ''active'' \<mapsto> [''type'' \<mapsto> PStr ''boolean'']]"

definition accepting :: library where
  "accepting = \<lparr>inherited_rules = (\<lambda>definitions field v. ([], True)),
     required_fields = (\<lambda>sch document update. [])\<rparr>"


definition validator_without_model_class :: "nat validator" where
  "validator_without_model_class = \<lparr>self_schema = account_schema, self_model_class = None,
     self_update = False, self_model = None, self_errors = []\<rparr>"


section \<open>Properties of schema generation\<close>

lemmas prop_defs =
  column_prop_def add_maxlength_def add_readonly_def add_required_def add_unique_def

lemmas user_defs = User_def user_id_def user_email_def user_active_def

text \<open>A name that no selected column bears keeps its entry.\<close>

lemma schema_loop_unchanged:
  "schema_loop cs inc exc er s = Inr s' \<Longrightarrow>
   n \<notin> name ` {c \<in> set cs. selected inc exc c} \<Longrightarrow> s' n = s n"
proof (induction cs arbitrary: s)
  case Nil
  then show ?case by simp
next
  case (Cons c cs)
  show ?case
  proof (cases "selected inc exc c")
    case False
    with Cons show ?thesis by auto
  next
    case True
    with Cons.prems obtain t where
      loop: "schema_loop cs inc exc er (s(name c \<mapsto> column_prop c er t)) = Inr s'"
      by (auto split: option.splits)
    from Cons.prems(2) True have ne: "n \<noteq> name c"
      and rest: "n \<notin> name ` {c \<in> set cs. selected inc exc c}"
      by auto
    from Cons.IH [OF loop rest] ne show ?thesis by simp
  qed
qed

text \<open>With distinct column names, a selected column's entry is its own rule-set.\<close>

lemma schema_loop_selected:
  "schema_loop cs inc exc er s = Inr s' \<Longrightarrow> distinct (map name cs) \<Longrightarrow> c \<in> set cs \<Longrightarrow>
   selected inc exc c \<Longrightarrow>
   \<exists>t. schema_type_conversions (python_type c) = Some t \<and>
       s' (name c) = Some (column_prop c er t)"
proof (induction cs arbitrary: s)
  case Nil
  then show ?case by simp
next
  case (Cons d cs)
  show ?case
  proof (cases "selected inc exc d")
    case False
    with Cons show ?thesis by auto
  next
    case True
    with Cons.prems(1) obtain t where
      t: "schema_type_conversions (python_type d) = Some t"
      and loop: "schema_loop cs inc exc er (s(name d \<mapsto> column_prop d er t)) = Inr s'"
      by (auto split: option.splits)
    show ?thesis
    proof (cases "c = d")
      case True
      from Cons.prems(2) have "name d \<notin> name ` {c \<in> set cs. selected inc exc c}"
        by auto
      from schema_loop_unchanged [OF loop this] t True show ?thesis by simp
    next
      case False
      with Cons.prems have "c \<in> set cs" "distinct (map name cs)" by auto
      from Cons.IH [OF loop this(2) this(1) Cons.prems(4)] show ?thesis .
    qed
  qed
qed

text \<open>The loop raises exactly when a selected column has no conversion.\<close>

lemma schema_loop_error:
  "schema_loop cs inc exc er s = Inl e \<longleftrightarrow>
   e = LookupError \<and>
   (\<exists>c \<in> set cs. selected inc exc c \<and> schema_type_conversions (python_type c) = None)"
  by (induction cs arbitrary: s) (auto split: option.splits)

lemma column_prop_required:
  "column_prop c er t ''required'' = Some (PBool True) \<longleftrightarrow>
   ''required'' \<notin> set er \<and> col_default c = None \<and> server_default c = None \<and>
   \<not> nullable c \<and> \<not> primary_key c"
  by (simp add: prop_defs)

lemma column_prop_required_primary_key:
  "primary_key c \<Longrightarrow> column_prop c er t ''required'' = None"
  by (simp add: prop_defs)

text \<open>
  C1 (as stated, refuted). The claim gives \<open>required: true\<close> to every selected field that
  has no default, no server default, is not nullable and is not a primary key. The
  e-mail column of \<open>User\<close> is such a field, and with \<open>exclude_rules = ["required"]\<close> its
  rule-set has no \<open>required\<close> entry.
\<close>

theorem required_excluded_counterexample:
  "selected [] [] user_email \<and> col_default user_email = None \<and>
   server_default user_email = None \<and> \<not> nullable user_email \<and> \<not> primary_key user_email \<and>
   field_rules (generate_schema User [] [] (Some [''required''])) ''email'' =
     Inr (Some [Some (PStr ''string''), Some (PInt 120), None, None, Some (PBool True)])"
  by (simp add: field_rules_def read_rules_def generate_schema_def user_defs selected_def
      prop_defs)

text \<open>
  C1 (amended). For every model whose column names are distinct and every selected
  column of it, the generated rule-set has \<open>required: true\<close> if and only if the rule kind
  \<open>required\<close> is not among the excluded rule kinds and the column has no default, no
  server default, is not nullable and is not a primary key. For a primary key the
  rule-set has no \<open>required\<close> entry at all, whatever its nullability.
\<close>

theorem required_rule_iff:
  assumes "distinct (map name model_class)"
    and "generate_schema model_class include exclude exclude_rules = Inr schema"
    and "c \<in> set model_class"
    and "selected include exclude c"
  shows "\<exists>prop. schema (name c) = Some prop \<and>
     (prop ''required'' = Some (PBool True) \<longleftrightarrow>
        ''required'' \<notin> set (case exclude_rules of None \<Rightarrow> [] | Some rs \<Rightarrow> rs) \<and>
        col_default c = None \<and> server_default c = None \<and> \<not> nullable c \<and> \<not> primary_key c) \<and>
     (primary_key c \<longrightarrow> prop ''required'' = None)"
proof -
  let ?er = "case exclude_rules of None \<Rightarrow> [] | Some rs \<Rightarrow> rs"
  from assms(2) have "schema_loop model_class include exclude ?er Map.empty = Inr schema"
    by (simp add: generate_schema_def)
  from schema_loop_selected [OF this assms(1) assms(3) assms(4)]
  obtain t where "schema (name c) = Some (column_prop c ?er t)"
    by blast
  then show ?thesis
    using column_prop_required [of c ?er t] column_prop_required_primary_key [of c ?er t]
    by auto
qed

theorem required_rule_iff_witness:
  "\<exists>schema. generate_schema User [] [] None = Inr schema \<and>
     (\<exists>prop. schema ''email'' = Some prop \<and> prop ''required'' = Some (PBool True)) \<and>
     (\<exists>prop. schema ''id'' = Some prop \<and> prop ''required'' = None)"
proof -
  have d: "distinct (map name User)"
    by (simp add: user_defs)
  obtain schema where s: "generate_schema User [] [] None = Inr schema"
    by (simp add: generate_schema_def user_defs selected_def)
  have e: "user_email \<in> set User" and i: "user_id \<in> set User"
    by (simp_all add: User_def)
  have se: "selected [] [] user_email" and si: "selected [] [] user_id"
    by (simp_all add: selected_def)
  from required_rule_iff [OF d s e se] required_rule_iff [OF d s i si]
  show ?thesis using s by (auto simp: user_email_def user_id_def)
qed

text \<open>
  C2 (the code at the failing inputs). For the e-mail column of \<open>User\<close>, a string of
  maximum length 120: excluding the rule kind \<open>readonly\<close> removes \<open>maxlength\<close> from the
  rule-set, and excluding the rule kind \<open>maxlength\<close> leaves \<open>maxlength: 120\<close> in it.
\<close>

theorem maxlength_gated_by_readonly:
  "field_rules (generate_schema User [] [] (Some [''readonly''])) ''email'' =
     Inr (Some [Some (PStr ''string''), None, None, Some (PBool True), Some (PBool True)]) \<and>
   field_rules (generate_schema User [] [] (Some [''maxlength''])) ''email'' =
     Inr (Some [Some (PStr ''string''), Some (PInt 120), None, Some (PBool True),
       Some (PBool True)])"
  by (simp add: field_rules_def read_rules_def generate_schema_def user_defs selected_def
      prop_defs)

text \<open>
  C5. The conversion table maps integer, string, boolean, date and datetime to
  \<open>integer\<close>, \<open>string\<close>, \<open>boolean\<close>, \<open>string\<close>, \<open>string\<close>. When a model has a selected column
  whose type is none of the five, \<open>generate_schema\<close> raises \<open>LookupError\<close>: it returns
  no schema, neither without that field nor for the fields before it.
\<close>

theorem unsupported_type_aborts:
  assumes "c \<in> set model_class"
    and "selected include exclude c"
    and "python_type c \<notin> {PyInt, PyStr, PyBool, PyDate, PyDatetime}"
  shows "generate_schema model_class include exclude exclude_rules = Inl LookupError \<and>
     map schema_type_conversions [PyInt, PyStr, PyBool, PyDate, PyDatetime] =
       [Some ''integer'', Some ''string'', Some ''boolean'', Some ''string'', Some ''string'']"
proof -
  from assms(3) have "schema_type_conversions (python_type c) = None"
    by (cases "python_type c") simp_all
  with assms(1) assms(2) show ?thesis
    by (auto simp: generate_schema_def schema_loop_error)
qed

theorem unsupported_type_aborts_witness:
  "generate_schema Product [] [] None = Inl LookupError \<and>
   generate_schema Product [''id'', ''price''] [] (Some [''unique'']) = Inl LookupError"
proof -
  have m: "product_price \<in> set Product"
    by (simp add: Product_def)
  have t: "python_type product_price \<notin> {PyInt, PyStr, PyBool, PyDate, PyDatetime}"
    by (simp add: product_price_def)
  have s1: "selected [] [] product_price"
    and s2: "selected [''id'', ''price''] [] product_price"
    by (simp_all add: selected_def product_price_def)
  from unsupported_type_aborts [OF m s1 t] unsupported_type_aborts [OF m s2 t]
  show ?thesis by simp
qed

section \<open>Properties of the export\<close>

lemmas example_defs = new_user_def author_def blog_def post_def Author_def Post_def
  org_id_column_def post_title_def attrs_of_def User_def user_id_def user_email_def
  user_active_def export_from_sqla_object_def included_def get_column_default_def

lemma map_of_dict_set: "map_of (dict_set k v d) = (map_of d)(k \<mapsto> v)"
  by (induction d) (auto simp: fun_eq_iff)

lemma keys_dict_set: "fst ` set (dict_set k v d) = insert k (fst ` set d)"
  by (simp add: dom_map_of_conv_image_fst [symmetric] map_of_dict_set)

lemma dict_set_twice: "dict_set k v (dict_set k w d) = dict_set k v d"
  by (induction d) auto

lemma keys_export_columns:
  "fst ` set (export_columns p a inc exc cs d) =
   fst ` set d \<union> {n \<in> name ` set cs. included inc exc n}"
  by (induction cs arbitrary: d) (auto simp: keys_dict_set)

lemma export_columns_other:
  "n \<notin> name ` set cs \<Longrightarrow> map_of (export_columns p a inc exc cs d) n = map_of d n"
  by (induction cs arbitrary: d) (auto simp: map_of_dict_set)

lemma export_columns_value:
  "distinct (map name cs) \<Longrightarrow> c \<in> set cs \<Longrightarrow> included inc exc (name c) \<Longrightarrow>
   map_of (export_columns p a inc exc cs d) (name c) =
     Some (EVal (if p then a (name c)
                 else if a (name c) = PNone then get_column_default c else a (name c)))"
proof (induction cs arbitrary: d)
  case Nil
  then show ?case by simp
next
  case (Cons x cs)
  show ?case
  proof (cases "c = x")
    case True
    with Cons.prems have "name x \<notin> name ` set cs" by auto
    with True Cons.prems(3) show ?thesis
      by (simp add: export_columns_other map_of_dict_set)
  next
    case False
    with Cons.prems have "c \<in> set cs" "distinct (map name cs)" by auto
    from Cons.IH [OF this(2) this(1) Cons.prems(3)] show ?thesis by simp
  qed
qed

text \<open>One step of the relationship loop, with the two assignments to the key merged.\<close>

lemma export_relationships_Cons:
  "export_relationships g u e ((k, r) # rest) d =
     (if k \<notin> set u \<and> k \<notin> set e then
        (case relationship_value g r of
           Inl err \<Rightarrow> Inl err
         | Inr v \<Rightarrow> export_relationships g u e rest (dict_set k v d))
      else export_relationships g u e rest d)"
  by (simp add: relationship_value_def Let_def dict_set_twice split: sum.splits)

lemma keys_export_relationships:
  "export_relationships g u e rels d = Inr d' \<Longrightarrow>
   fst ` set d' = fst ` set d \<union> (fst ` set rels - set u - set e)"
proof (induction rels arbitrary: d)
  case Nil
  then show ?case by simp
next
  case (Cons kr rels)
  obtain k r where kr: "kr = (k, r)" by (cases kr)
  show ?case
  proof (cases "k \<notin> set u \<and> k \<notin> set e")
    case False
    with Cons.prems kr have "export_relationships g u e rels d = Inr d'"
      by (simp add: export_relationships_Cons del: export_relationships.simps)
    from Cons.IH [OF this] False kr show ?thesis by auto
  next
    case True
    with Cons.prems kr obtain v where
      "export_relationships g u e rels (dict_set k v d) = Inr d'"
      by (auto simp: export_relationships_Cons simp del: export_relationships.simps
          split: sum.splits)
    from Cons.IH [OF this] True kr show ?thesis by (auto simp: keys_dict_set)
  qed
qed

lemma export_relationships_other:
  "export_relationships g u e rels d = Inr d' \<Longrightarrow> n \<notin> fst ` set rels \<Longrightarrow>
   map_of d' n = map_of d n"
proof (induction rels arbitrary: d)
  case Nil
  then show ?case by simp
next
  case (Cons kr rels)
  obtain k r where kr: "kr = (k, r)" by (cases kr)
  from Cons.prems(2) kr have ne: "n \<noteq> k" and rest: "n \<notin> fst ` set rels" by auto
  from Cons.prems(1) kr consider
      "export_relationships g u e rels d = Inr d'"
    | v where "export_relationships g u e rels (dict_set k v d) = Inr d'"
    by (auto simp: export_relationships_Cons simp del: export_relationships.simps
        split: if_splits sum.splits)
  then show ?case
  proof cases
    case 1
    from Cons.IH [OF 1 rest] show ?thesis .
  next
    case 2
    from Cons.IH [OF 2 rest] ne show ?thesis by (simp add: map_of_dict_set)
  qed
qed

text \<open>With distinct relationship keys, a loaded and not excluded key holds its own value.\<close>

lemma export_relationships_value:
  "export_relationships g u e rels d = Inr d' \<Longrightarrow> distinct (map fst rels) \<Longrightarrow>
   (k, r) \<in> set rels \<Longrightarrow> k \<notin> set u \<Longrightarrow> k \<notin> set e \<Longrightarrow>
   \<exists>v. relationship_value g r = Inr v \<and> map_of d' k = Some v"
proof (induction rels arbitrary: d)
  case Nil
  then show ?case by simp
next
  case (Cons x rels)
  show ?case
  proof (cases "(k, r) = x")
    case True
    with Cons.prems(2) have notin: "k \<notin> fst ` set rels" by force
    from Cons.prems(1) True [symmetric] Cons.prems(4) Cons.prems(5) obtain v where
      v: "relationship_value g r = Inr v"
      and loop: "export_relationships g u e rels (dict_set k v d) = Inr d'"
      by (auto simp: export_relationships_Cons simp del: export_relationships.simps
          split: sum.splits)
    from export_relationships_other [OF loop notin] v show ?thesis
      by (simp add: map_of_dict_set)
  next
    case False
    with Cons.prems have m: "(k, r) \<in> set rels" and dis: "distinct (map fst rels)" by auto
    obtain k' r' where x: "x = (k', r')" by (cases x)
    from Cons.prems(1) x obtain d1 where loop: "export_relationships g u e rels d1 = Inr d'"
      by (auto simp: export_relationships_Cons simp del: export_relationships.simps
          split: if_splits sum.splits)
    from Cons.IH [OF loop dis m Cons.prems(4) Cons.prems(5)] show ?thesis .
  qed
qed

lemma export_persisted:
  assumes "ExportData_call g (Instance True cols attrs unl rels custom) inc exc = Inr result"
  obtains data where "result = EDict data"
    and "export_relationships g unl (exc @ g) rels
           (export_columns True attrs inc (exc @ g) cols []) = Inr data"
  using assms by (auto simp: Let_def split: sum.splits)

text \<open>The members of an exported list, one by one.\<close>

lemma ExportData_items_members:
  "ExportData_items g items inc exc = Inr vs \<Longrightarrow>
   list_all2 (\<lambda>item v. ExportData_call g item inc exc = Inr v) items vs"
  by (induction items arbitrary: vs) (auto split: sum.splits)

lemma export_data_each_members:
  "export_data_each items inc exc = Inr vs \<Longrightarrow>
   list_all2 (\<lambda>item v. call_export_data item inc exc = Inr v) items vs"
  by (induction items arbitrary: vs) (auto split: sum.splits)

lemma call_export_data_Inr: "call_export_data x inc exc = Inr v \<Longrightarrow> has_export_data x"
  by (erule call_export_data.elims) auto

lemma export_PyList:
  assumes "ExportData_call g (PyList items) inc exc = Inr r" and "items \<noteq> []"
  shows "\<exists>vs. r = EList vs \<and>
     list_all2 (\<lambda>item v. (if has_export_data (hd items) then call_export_data item inc exc
                          else ExportData_call g item inc exc) = Inr v) items vs"
proof (cases "export_data_each items inc exc")
  case (Inr vs)
  from assms(2) obtain x xs where items: "items = x # xs" by (cases items) auto
  with Inr have "has_export_data (hd items)"
    by (auto split: sum.splits dest: call_export_data_Inr)
  with export_data_each_members [OF Inr] assms(1) Inr show ?thesis by auto
next
  case (Inl e)
  from assms(2) obtain x xs where items: "items = x # xs" by (cases items) auto
  from assms(1) Inl items obtain vs where
    no: "\<not> has_export_data (hd items)" and vs: "ExportData_items g items inc exc = Inr vs"
    and r: "r = EList vs"
    by (auto split: if_splits sum.splits)
  from ExportData_items_members [OF vs] no r show ?thesis by simp
qed

text \<open>
  C6. For an instance that is not persisted, whose column names are distinct, the export
  returns a dictionary whose keys are the selected column names, and a selected column
  holds the live value when that is not \<open>None\<close>; when the live value is \<open>None\<close> it holds
  the column's default if that is an \<open>int\<close>, a \<open>str\<close> or a \<open>bool\<close>, and \<open>None\<close> otherwise.
\<close>

theorem unpersisted_export_value:
  assumes "distinct (map name cols)"
    and "c \<in> set cols"
    and "included include (exclude @ self_exclude) (name c)"
  shows "\<exists>data.
     ExportData_call self_exclude (Instance False cols attrs unl rels custom) include exclude =
       Inr (EDict data) \<and>
     fst ` set data = {n \<in> name ` set cols. included include (exclude @ self_exclude) n} \<and>
     map_of data (name c) =
       Some (EVal (if attrs (name c) \<noteq> PNone then attrs (name c)
                   else (case col_default c of
                           Some (ColumnDefault (PInt i)) \<Rightarrow> PInt i
                         | Some (ColumnDefault (PStr s)) \<Rightarrow> PStr s
                         | Some (ColumnDefault (PBool b)) \<Rightarrow> PBool b
                         | _ \<Rightarrow> PNone)))"
  using export_columns_value [OF assms, of False attrs "[]"]
  by (auto simp: get_column_default_def keys_export_columns
      split: option.splits column_default.splits py_value.splits)

text \<open>
  The scenario of the spec: the export of an unpersisted \<open>User()\<close> with nothing set is
  \<open>{id: None, email: None, active: False}\<close>.
\<close>

theorem unpersisted_export_value_witness:
  "export_from_sqla_object new_user [] [] =
     Inr (EDict [(''id'', EVal PNone), (''email'', EVal PNone),
       (''active'', EVal (PBool False))]) \<and>
   (\<exists>data. export_from_sqla_object new_user [] [] = Inr (EDict data) \<and>
      map_of data ''active'' = Some (EVal (PBool False))) \<and>
   (\<exists>data. export_from_sqla_object new_user [] [] = Inr (EDict data) \<and>
      map_of data ''email'' = Some (EVal PNone))"
proof -
  have d: "distinct (map name User)"
    by (simp add: user_defs)
  have a: "user_active \<in> set User" and e: "user_email \<in> set User"
    by (simp_all add: User_def)
  have ia: "included [] ([] @ [''org_id'']) (name user_active)"
    and ie: "included [] ([] @ [''org_id'']) (name user_email)"
    by (simp_all add: included_def user_defs)
  have "export_from_sqla_object new_user [] [] =
     Inr (EDict [(''id'', EVal PNone), (''email'', EVal PNone),
       (''active'', EVal (PBool False))])"
    by (simp add: example_defs)
  moreover have "\<exists>data. export_from_sqla_object new_user [] [] = Inr (EDict data) \<and>
      map_of data ''active'' = Some (EVal (PBool False))"
    using unpersisted_export_value [OF d a ia, of "attrs_of []" "[]" "[]" None]
    by (auto simp: new_user_def export_from_sqla_object_def attrs_of_def user_active_def)
  moreover have "\<exists>data. export_from_sqla_object new_user [] [] = Inr (EDict data) \<and>
      map_of data ''email'' = Some (EVal PNone)"
    using unpersisted_export_value [OF d e ie, of "attrs_of []" "[]" "[]" None]
    by (auto simp: new_user_def export_from_sqla_object_def attrs_of_def user_email_def)
  ultimately show ?thesis by blast
qed

text \<open>
  C7. For a persisted instance, the exported dictionary has no key of a relationship
  that is not loaded, and a relationship that is loaded, not excluded and \<open>None\<close> is a
  key of it with the value \<open>None\<close>. The relationship keys are distinct and are not column
  names: the method reads columns and relationships alike with \<open>getattr\<close>, as attribute
  names of one mapped class.
\<close>

theorem unloaded_relationships_absent:
  assumes "ExportData_call self_exclude (Instance True cols attrs unl rels custom)
             include exclude = Inr result"
    and "distinct (map fst rels)"
    and "fst ` set rels \<inter> name ` set cols = {}"
  shows "\<exists>data. result = EDict data \<and>
     (\<forall>k \<in> fst ` set rels \<inter> set unl. k \<notin> fst ` set data) \<and>
     (\<forall>k. (k, PyNone) \<in> set rels \<and> k \<notin> set unl \<and> k \<notin> set (exclude @ self_exclude) \<longrightarrow>
          k \<in> fst ` set data \<and> map_of data k = Some (EVal PNone))"
proof -
  from assms(1) obtain data where
    r: "result = EDict data"
    and loop: "export_relationships self_exclude unl (exclude @ self_exclude) rels
        (export_columns True attrs include (exclude @ self_exclude) cols []) = Inr data"
    by (rule export_persisted)
  have a: "\<forall>k \<in> fst ` set rels \<inter> set unl. k \<notin> fst ` set data"
    using keys_export_relationships [OF loop] assms(3)
    by (auto simp: keys_export_columns)
  have b: "k \<in> fst ` set data \<and> map_of data k = Some (EVal PNone)"
    if "(k, PyNone) \<in> set rels" "k \<notin> set unl" "k \<notin> set (exclude @ self_exclude)" for k
  proof -
    from export_relationships_value [OF loop assms(2) that]
    have m: "map_of data k = Some (EVal PNone)"
      by (simp add: relationship_value_def)
    then have "k \<in> dom (map_of data)" by blast
    with m show ?thesis by (simp add: dom_map_of_conv_image_fst)
  qed
  from r a b show ?thesis by blast
qed

theorem unloaded_relationships_absent_witness:
  "\<exists>data. export_from_sqla_object author [] [] = Inr (EDict data) \<and>
     ''org'' \<notin> fst ` set data \<and> map_of data ''profile'' = Some (EVal PNone)"
proof -
  let ?rels = "[(''profile'', PyNone), (''posts'', PyList [post 10 ''a'', post 11 ''b'']),
      (''org'', PyNone)]"
  let ?attrs = "attrs_of [(''id'', PInt 1), (''org_id'', PInt 7)]"
  obtain result where e: "ExportData_call [''org_id'']
      (Instance True Author ?attrs [''org''] ?rels None) [] [] = Inr result"
    by (simp add: example_defs)
  have d: "distinct (map fst ?rels)" by simp
  have j: "fst ` set ?rels \<inter> name ` set Author = {}"
    by (simp add: Author_def user_id_def org_id_column_def)
  from unloaded_relationships_absent [OF e d j] obtain data where
    r: "result = EDict data"
    and a: "\<forall>k \<in> fst ` set ?rels \<inter> set [''org'']. k \<notin> fst ` set data"
    and b: "\<forall>k. (k, PyNone) \<in> set ?rels \<and> k \<notin> set [''org''] \<and> k \<notin> set ([] @ [''org_id'']) \<longrightarrow>
          k \<in> fst ` set data \<and> map_of data k = Some (EVal PNone)"
    by blast
  from a have "''org'' \<notin> fst ` set data" by simp
  moreover from b have "map_of data ''profile'' = Some (EVal PNone)" by simp
  ultimately show ?thesis
    using e r by (auto simp: author_def export_from_sqla_object_def)
qed

text \<open>
  C8 (as stated, refuted). The relationship \<open>posts\<close> of \<open>blog\<close> is to-many, loaded, not
  excluded and empty. The export maps its key to \<open>None\<close>, while the export of the empty
  list is the empty list.
\<close>

theorem empty_to_many_counterexample:
  "export_from_sqla_object blog [] [] =
     Inr (EDict [(''id'', EVal (PInt 1)), (''posts'', EVal PNone)]) \<and>
   export_from_sqla_object (PyList []) [] [] = Inr (EList [])"
  by (simp add: example_defs)

text \<open>
  C8 (amended). For a persisted instance whose relationship keys are distinct, a to-many
  relationship that is loaded, not excluded and has at least one member is a key of the
  exported dictionary, and its value is the list of the exports of its members, in
  their order: the export of the list itself, each member exported by its own
  \<open>export_data\<close> when the first member has one, and by the exporter otherwise.
\<close>

theorem to_many_relationship_export:
  assumes "ExportData_call self_exclude (Instance True cols attrs unl rels custom)
             include exclude = Inr result"
    and "distinct (map fst rels)"
    and "(key, PyList items) \<in> set rels"
    and "items \<noteq> []"
    and "key \<notin> set unl"
    and "key \<notin> set (exclude @ self_exclude)"
  shows "\<exists>data vs. result = EDict data \<and> map_of data key = Some (EList vs) \<and>
     ExportData_call self_exclude (PyList items) [] [] = Inr (EList vs) \<and>
     list_all2 (\<lambda>item v. (if has_export_data (hd items) then call_export_data item [] []
                          else ExportData_call self_exclude item [] []) = Inr v) items vs"
proof -
  from assms(1) obtain data where
    r: "result = EDict data"
    and loop: "export_relationships self_exclude unl (exclude @ self_exclude) rels
        (export_columns True attrs include (exclude @ self_exclude) cols []) = Inr data"
    by (rule export_persisted)
  from export_relationships_value [OF loop assms(2) assms(3) assms(5) assms(6)] assms(4)
  obtain v where v: "ExportData_call self_exclude (PyList items) [] [] = Inr v"
    and m: "map_of data key = Some v"
    by (auto simp: relationship_value_def)
  from export_PyList [OF v assms(4)] r v m show ?thesis by auto
qed

theorem to_many_relationship_export_witness:
  "\<exists>data. export_from_sqla_object author [] [] = Inr (EDict data) \<and>
     map_of data ''posts'' =
       Some (EList [EDict [(''id'', EVal (PInt 10)), (''title'', EVal (PStr ''a''))],
                    EDict [(''id'', EVal (PInt 11)), (''title'', EVal (PStr ''b''))]]) \<and>
     ExportData_call [''org_id''] (post 10 ''a'') [] [] =
       Inr (EDict [(''id'', EVal (PInt 10)), (''title'', EVal (PStr ''a''))])"
proof -
  let ?items = "[post 10 ''a'', post 11 ''b'']"
  let ?rels = "[(''profile'', PyNone), (''posts'', PyList ?items), (''org'', PyNone)]"
  let ?attrs = "attrs_of [(''id'', PInt 1), (''org_id'', PInt 7)]"
  obtain result where e: "ExportData_call [''org_id'']
      (Instance True Author ?attrs [''org''] ?rels None) [] [] = Inr result"
    by (simp add: example_defs)
  have d: "distinct (map fst ?rels)" by simp
  have m: "(''posts'', PyList ?items) \<in> set ?rels" by simp
  have n: "?items \<noteq> []" by simp
  have u: "''posts'' \<notin> set [''org'']" and x: "''posts'' \<notin> set ([] @ [''org_id''])"
    by simp_all
  have l: "ExportData_call [''org_id''] (PyList ?items) [] [] =
      Inr (EList [EDict [(''id'', EVal (PInt 10)), (''title'', EVal (PStr ''a''))],
                  EDict [(''id'', EVal (PInt 11)), (''title'', EVal (PStr ''b''))]])"
    by (simp add: example_defs)
  have p: "ExportData_call [''org_id''] (post 10 ''a'') [] [] =
       Inr (EDict [(''id'', EVal (PInt 10)), (''title'', EVal (PStr ''a''))])"
    by (simp add: example_defs)
  from to_many_relationship_export [OF e d m n u x] obtain data vs where
    "result = EDict data" "map_of data ''posts'' = Some (EList vs)"
    "ExportData_call [''org_id''] (PyList ?items) [] [] = Inr (EList vs)"
    by blast
  with e l p show ?thesis
    by (auto simp: author_def export_from_sqla_object_def)
qed

text \<open>
  C9. Whatever the instance and whatever \<open>include\<close> and \<open>exclude\<close> the caller gives, the
  dictionary that \<open>export_from_sqla_object\<close> returns has no key \<open>org_id\<close>.
\<close>

theorem org_id_never_exported:
  assumes "export_from_sqla_object (Instance p cols attrs unl rels custom) include exclude =
             Inr result"
  shows "\<exists>data. result = EDict data \<and> ''org_id'' \<notin> fst ` set data"
proof (cases p)
  case False
  with assms show ?thesis
    by (auto simp: export_from_sqla_object_def keys_export_columns included_def)
next
  case True
  with assms have "ExportData_call [''org_id''] (Instance True cols attrs unl rels custom)
      include exclude = Inr result"
    by (simp add: export_from_sqla_object_def del: ExportData_call.simps)
  then obtain data where
    r: "result = EDict data"
    and loop: "export_relationships [''org_id''] unl (exclude @ [''org_id'']) rels
        (export_columns True attrs include (exclude @ [''org_id'']) cols []) = Inr data"
    by (rule export_persisted)
  from keys_export_relationships [OF loop] r show ?thesis
    by (auto simp: keys_export_columns included_def)
qed

theorem org_id_never_exported_witness:
  "\<exists>data. export_from_sqla_object author [''org_id'', ''id''] [] = Inr (EDict data) \<and>
     ''org_id'' \<notin> fst ` set data \<and> ''id'' \<in> fst ` set data"
proof -
  obtain result where e: "export_from_sqla_object
      (Instance True Author (attrs_of [(''id'', PInt 1), (''org_id'', PInt 7)]) [''org'']
        [(''profile'', PyNone), (''posts'', PyList [post 10 ''a'', post 11 ''b'']),
         (''org'', PyNone)] None) [''org_id'', ''id''] [] = Inr result"
    and i: "\<exists>data. result = EDict data \<and> ''id'' \<in> fst ` set data"
    by (simp add: example_defs)
  from org_id_never_exported [OF e] i e show ?thesis
    by (auto simp: author_def)
qed

section \<open>Properties of the import\<close>

lemma import_loop_other:
  "k \<notin> fst ` set data \<or> k \<notin> set keys \<Longrightarrow> import_loop keys attrs data k = attrs k"
  by (induction data arbitrary: attrs) auto

lemma import_loop_value:
  "distinct (map fst data) \<Longrightarrow> (k, v) \<in> set data \<Longrightarrow> k \<in> set keys \<Longrightarrow>
   import_loop keys attrs data k = v"
proof (induction data arbitrary: attrs)
  case Nil
  then show ?case by simp
next
  case (Cons x data)
  show ?case
  proof (cases "x = (k, v)")
    case True
    with Cons.prems have "k \<notin> fst ` set data" by force
    with True Cons.prems(3) show ?thesis by (simp add: import_loop_other)
  next
    case False
    with Cons.prems have "(k, v) \<in> set data" "distinct (map fst data)" by auto
    from Cons.IH [OF this(2) this(1) Cons.prems(3)] show ?thesis
      by (cases x) simp
  qed
qed

text \<open>
  C10 (as stated, refuted). The schema generated for \<open>User\<close> with \<open>exclude = ["id"]\<close> has
  no key \<open>id\<close>, and the import of \<open>{"id": 99}\<close> into a \<open>User\<close> assigns \<open>id\<close>: the function
  takes no schema and tests the key against the columns of the class.
\<close>

theorem import_ignores_schema_counterexample:
  "field_rules (generate_schema User [] [''id''] None) ''id'' = Inr None \<and>
   field_rules (generate_schema User [] [''id''] None) ''email'' =
     Inr (Some [Some (PStr ''string''), Some (PInt 120), None, Some (PBool True),
       Some (PBool True)]) \<and>
   read_attr (Inr new_user) ''id'' = Inr PNone \<and>
   read_attr (import_into_sqla_object new_user [(''id'', PInt 99)]) ''id'' = Inr (PInt 99)"
  by (simp add: field_rules_def read_rules_def generate_schema_def user_defs selected_def
      prop_defs read_attr_def new_user_def attrs_of_def)

text \<open>
  C10 (amended). Importing a dictionary (its keys are distinct) into an instance raises
  nothing and returns the instance with, attribute by attribute: the value of the
  dictionary when the attribute is a key of the dictionary and the name of a column of
  the instance's class, whether or not a generated schema has that key; the old value
  otherwise. A key that is no column name is ignored, and nothing else of the instance
  changes.
\<close>

theorem import_assigns_column_keys:
  assumes "distinct (map fst data)"
  shows "\<exists>attrs'. import_into_sqla_object (Instance p cols attrs unl rels custom) data =
       Inr (Instance p cols attrs' unl rels custom) \<and>
     (\<forall>k. attrs' k =
        (case map_of data k of
           Some v \<Rightarrow> if k \<in> name ` set cols then v else attrs k
         | None \<Rightarrow> attrs k))"
proof -
  have "import_loop (map name cols) attrs data k =
        (case map_of data k of
           Some v \<Rightarrow> if k \<in> name ` set cols then v else attrs k
         | None \<Rightarrow> attrs k)" for k
  proof (cases "map_of data k")
    case None
    then have "k \<notin> fst ` set data" by (simp add: map_of_eq_None_iff)
    with None show ?thesis by (simp add: import_loop_other)
  next
    case (Some v)
    then have m: "(k, v) \<in> set data" by (rule map_of_SomeD)
    show ?thesis
    proof (cases "k \<in> name ` set cols")
      case True
      with import_loop_value [OF assms m, of "map name cols" attrs] Some show ?thesis by simp
    next
      case False
      with Some show ?thesis by (simp add: import_loop_other)
    qed
  qed
  then show ?thesis by simp
qed

theorem import_assigns_column_keys_witness:
  "\<exists>attrs'. import_into_sqla_object
       (Instance False User (attrs_of [(''active'', PBool True)]) [] [] None)
       [(''email'', PStr ''a@b.com''), (''role'', PStr ''admin'')] =
       Inr (Instance False User attrs' [] [] None) \<and>
     attrs' ''email'' = PStr ''a@b.com'' \<and> attrs' ''role'' = PNone \<and>
     attrs' ''active'' = PBool True"
proof -
  have d: "distinct (map fst [(''email'', PStr ''a@b.com''), (''role'', PStr ''admin'')])"
    by simp
  from import_assigns_column_keys [OF d, of False User "attrs_of [(''active'', PBool True)]"
      "[]" "[]" None]
  obtain attrs' where
    r: "import_into_sqla_object
       (Instance False User (attrs_of [(''active'', PBool True)]) [] [] None)
       [(''email'', PStr ''a@b.com''), (''role'', PStr ''admin'')] =
       Inr (Instance False User attrs' [] [] None)"
    and a: "\<forall>k. attrs' k =
        (case map_of [(''email'', PStr ''a@b.com''), (''role'', PStr ''admin'')] k of
           Some v \<Rightarrow> if k \<in> name ` set User then v else attrs_of [(''active'', PBool True)] k
         | None \<Rightarrow> attrs_of [(''active'', PBool True)] k)"
    by blast
  from a have "attrs' ''email'' = PStr ''a@b.com''" "attrs' ''role'' = PNone"
    "attrs' ''active'' = PBool True"
    by (simp_all add: user_defs attrs_of_def)
  with r show ?thesis by blast
qed

section \<open>Properties of the validator\<close>

lemma validate_fields_no_model_class:
  "self_model_class self = None \<Longrightarrow>
   validate_fields lib self doc = Inl e \<longleftrightarrow>
     e = RuntimeError \<and> (\<exists>fv \<in> set doc. unique_evaluated lib (self_schema self) fv)"
proof (induction doc arbitrary: self)
  case Nil
  then show ?case by simp
next
  case (Cons fv doc)
  obtain field v where fv: "fv = (field, v)" by (cases fv)
  show ?case
  proof (cases "self_schema self field")
    case None
    with Cons fv show ?thesis by (simp add: unique_evaluated_def)
  next
    case (Some definitions)
    obtain found continue where
      ir: "inherited_rules lib definitions field v = (found, continue)"
      by (cases "inherited_rules lib definitions field v")
    let ?self1 = "self\<lparr>self_errors := self_errors self @ found\<rparr>"
    have s1: "self_model_class ?self1 = None" "self_schema ?self1 = self_schema self"
      using Cons.prems by simp_all
    show ?thesis
      using Some ir fv Cons.IH [OF s1(1)] s1 Cons.prems
      by (auto simp: unique_evaluated_def validate_unique_def Let_def split: sum.splits)
  qed
qed

text \<open>
  C3 (as stated, refuted). The schema has a \<open>unique\<close> rule on \<open>email\<close> and the validator
  has no model class. A document without the field \<open>email\<close>, and the empty document, are
  validated and accepted: no error is raised.
\<close>

theorem unique_without_lookup_counterexample:
  "self_model_class validator_without_model_class = None \<and>
   (case self_schema validator_without_model_class ''email'' of
      None \<Rightarrow> None | Some definitions \<Rightarrow> definitions ''unique'') = Some (PBool True) \<and>
   map_sum id fst
     (validate accepting validator_without_model_class [(''active'', PBool True)] None False) =
     Inr True \<and>
   map_sum id fst (validate accepting validator_without_model_class [] None False) = Inr True"
  by (simp add: validator_without_model_class_def account_schema_def accepting_def
      validate_def inherited_validate_def Let_def)

text \<open>
  C3 (amended). On a validator constructed without a model class, \<open>validate\<close> raises
  \<open>RuntimeError\<close> exactly when the document has a field whose \<open>unique\<close> rule is evaluated
  with a true argument; the error comes from the check of that field, it ends the
  validation and no result is returned. When the document has no such field the
  validation returns its result.
\<close>

theorem unique_without_lookup_raises:
  assumes "self_model_class self = None"
  shows "(validate lib self document model update = Inl RuntimeError \<longleftrightarrow>
       (\<exists>fv \<in> set document. unique_evaluated lib (self_schema self) fv)) \<and>
     ((\<forall>fv \<in> set document. \<not> unique_evaluated lib (self_schema self) fv) \<longrightarrow>
       (\<exists>r. validate lib self document model update = Inr r))"
proof -
  let ?self1 = "self\<lparr>self_model := model, self_update := update, self_errors := []\<rparr>"
  have s1: "self_model_class ?self1 = None" using assms by simp
  note vf = validate_fields_no_model_class [OF s1, of lib document]
  have "validate lib self document model update = Inl RuntimeError \<longleftrightarrow>
     (\<exists>fv \<in> set document. unique_evaluated lib (self_schema self) fv)"
    using vf [of RuntimeError]
    by (auto simp: validate_def inherited_validate_def Let_def split: sum.splits)
  moreover have "(\<forall>fv \<in> set document. \<not> unique_evaluated lib (self_schema self) fv) \<longrightarrow>
     (\<exists>r. validate lib self document model update = Inr r)"
    using vf by (auto simp: validate_def inherited_validate_def Let_def split: sum.splits)
  ultimately show ?thesis by blast
qed

theorem unique_without_lookup_raises_witness:
  "validate accepting validator_without_model_class
     [(''active'', PBool True), (''email'', PStr ''a@b.com'')] None False = Inl RuntimeError \<and>
   (\<exists>r. validate accepting validator_without_model_class [(''active'', PBool True)] None False =
      Inr r)"
proof -
  have n: "self_model_class validator_without_model_class = None"
    by (simp add: validator_without_model_class_def)
  have s: "self_schema validator_without_model_class = account_schema"
    by (simp add: validator_without_model_class_def)
  have e: "unique_evaluated accepting account_schema (''email'', PStr ''a@b.com'')"
    and a: "\<not> unique_evaluated accepting account_schema (''active'', PBool True)"
    by (simp_all add: unique_evaluated_def account_schema_def accepting_def)
  from unique_without_lookup_raises [OF n, of accepting
      "[(''active'', PBool True), (''email'', PStr ''a@b.com'')]" None False]
    unique_without_lookup_raises [OF n, of accepting "[(''active'', PBool True)]" None False]
    s e a
  show ?thesis by simp
qed




end
